theory Spec2Isabelle
  imports Complex_Main
begin

section \<open>Numbers, errors and arrays\<close>

text \<open>
  The module \<open>pyts/metrics/dtw.py\<close> works on float64 arrays. Floating-point values are
  modelled as real numbers extended with \<open>+inf\<close> (\<open>np.inf\<close>), and float64 arithmetic as
  exact arithmetic on them; \<open>-inf\<close> and NaN are not modelled. Where the module turns a
  float64 product into an integer window (\<open>sakoe_chiba_band\<close>), the result depends on
  the rounding of the product, so there the float64 multiplication is a parameter of the
  model. Python integers are \<open>int\<close>; sizes and positions that the code obtains from
  \<open>.size\<close> / \<open>.shape\<close> or from \<open>range(n)\<close> with \<open>n\<close> a size are \<open>nat\<close>.
\<close>

datatype ext = Fin real | PInf

instantiation ext :: "{plus, linorder}"
begin

fun plus_ext :: "ext \<Rightarrow> ext \<Rightarrow> ext" where
  "plus_ext (Fin a) (Fin b) = Fin (a + b)"
| "plus_ext PInf _ = PInf"
| "plus_ext _ PInf = PInf"

fun less_eq_ext :: "ext \<Rightarrow> ext \<Rightarrow> bool" where
  "less_eq_ext (Fin a) (Fin b) = (a \<le> b)"
| "less_eq_ext _ PInf = True"
| "less_eq_ext PInf (Fin b) = False"

definition less_ext :: "ext \<Rightarrow> ext \<Rightarrow> bool" where
  "less_ext a b = (a \<le> b \<and> \<not> b \<le> a)"

instance
proof
  fix x y z :: ext
  show "(x < y) = (x \<le> y \<and> \<not> y \<le> x)" by (simp add: less_ext_def)
  show "x \<le> x" by (cases x) simp_all
  show "x \<le> y \<Longrightarrow> y \<le> z \<Longrightarrow> x \<le> z"
    by (cases x; cases y; cases z) simp_all
  show "x \<le> y \<Longrightarrow> y \<le> x \<Longrightarrow> x = y"
    by (cases x; cases y) simp_all
  show "x \<le> y \<or> y \<le> x"
    by (cases x; cases y) auto
qed

end

text \<open>The exceptions the module raises (or lets escape).\<close>

datatype error = ValueError | TypeError | IndexError

text \<open>A Python number argument: the code distinguishes \<open>int\<close> from \<open>float\<close> with \<open>isinstance\<close>.\<close>

datatype number = PyInt int | PyFloat real

fun num_val :: "number \<Rightarrow> real" where
  "num_val (PyInt i) = real_of_int i"
| "num_val (PyFloat f) = f"

type_synonym matrix = "ext list list"

text \<open>
  A region is the array of shape \<open>(2, n)\<close>: the pair of its two rows, \<open>region[0]\<close> (start
  indices, included) and \<open>region[1]\<close> (end indices, excluded).
\<close>

type_synonym region = "int list \<times> int list"

text \<open>\<open>np.arange(n)\<close>\<close>

definition arange :: "int \<Rightarrow> int list" where
  "arange n = map int [0..<nat n]"

text \<open>\<open>np.clip(a, a_min, a_max)\<close> on one entry: \<open>minimum(a_max, maximum(a, a_min))\<close>.\<close>

definition clip :: "int \<Rightarrow> int \<Rightarrow> int \<Rightarrow> int" where
  "clip a_min a_max a = min a_max (max a a_min)"

section \<open>Sakoe-Chiba band\<close>

text \<open>
  \<open>sakoe_chiba_band(n_timestamps, window_size)\<close>. \<open>n_timestamps\<close> is an integer by type
  (the \<open>TypeError\<close> branch for a non-integer is excluded by the type \<open>int\<close>);
  \<open>window_size\<close> is an \<open>int\<close> or a \<open>float\<close>, and the two are resolved differently.

  For a float the window is \<open>ceil(window_size * (n_timestamps - 1))\<close>, where the product
  is the float64 product of the float and the integer. The ceiling is not continuous, so
  the rounding of that product decides the window: the function \<open>float_mul\<close> stands for
  this product as Python computes it, and is a parameter of \<open>sakoe_chiba_band_fl\<close>.
\<close>

definition sakoe_chiba_band_fl :: "(real \<Rightarrow> int \<Rightarrow> real) \<Rightarrow> int \<Rightarrow> number \<Rightarrow> error + region" where
  "sakoe_chiba_band_fl float_mul n_timestamps window_size =
    (if \<not> n_timestamps \<ge> 2 then Inl ValueError
     else
       case (case window_size of
               PyInt w \<Rightarrow>
                 if \<not> (0 \<le> w \<and> w \<le> n_timestamps - 1) then Inl ValueError
                 else Inr w
             | PyFloat f \<Rightarrow>
                 if \<not> (0 \<le> f \<and> f \<le> 1) then Inl ValueError
                 else Inr \<lceil>float_mul f (n_timestamps - 1)\<rceil>) of
         Inl e \<Rightarrow> Inl e
       | Inr window_size' \<Rightarrow>
           let region = (arange n_timestamps, arange n_timestamps);
               region = (map (\<lambda>v. v + (- window_size')) (fst region),
                         map (\<lambda>v. v + (window_size' + 1)) (snd region));
               region = (map (clip 0 n_timestamps) (fst region),
                         map (clip 0 n_timestamps) (snd region))
           in Inr region)"

text \<open>
  The function with the product taken exactly. It is the function of the module
  whenever the float64 product \<open>window_size * (n_timestamps - 1)\<close> is exact, as it is for
  an integer window and for the float windows \<open>1.0\<close> and \<open>0.5\<close>.
\<close>

definition sakoe_chiba_band :: "int \<Rightarrow> number \<Rightarrow> error + region" where
  "sakoe_chiba_band n_timestamps window_size =
     sakoe_chiba_band_fl (\<lambda>f k. f * real_of_int k) n_timestamps window_size"

section \<open>Itakura parallelogram\<close>

text \<open>
  \<open>np.round(a, 2)\<close> multiplies by 100, rounds to the nearest integer with ties to the
  even one (\<open>rint\<close>) and divides by 100. The bounds of the parallelogram are computed
  over the reals; the float64 computation of the module agrees where its products,
  sums and quotients are exact, as they are for \<open>max_slope = 1\<close>.
\<close>

definition rint :: "real \<Rightarrow> int" where
  "rint x = (let f = \<lfloor>x\<rfloor>; d = x - real_of_int f
             in if d < 1 / 2 then f
                else if d > 1 / 2 then f + 1
                else if even f then f else f + 1)"

definition np_round2 :: "real \<Rightarrow> real" where
  "np_round2 x = real_of_int (rint (x * 100)) / 100"

definition itakura_parallelogram :: "int \<Rightarrow> number \<Rightarrow> error + region" where
  "itakura_parallelogram n_timestamps max_slope_arg =
    (let max_slope = num_val max_slope_arg in
     if \<not> n_timestamps \<ge> 2 then Inl ValueError
     else if \<not> max_slope \<ge> 1 then Inl ValueError
     else
       let min_slope = 1 / max_slope;
           lower_bound0 = map (\<lambda>j. min_slope * real_of_int j) (arange n_timestamps);
           lower_bound1 = map (\<lambda>j. (1 - max_slope) * real_of_int (n_timestamps - 1)
                                      + max_slope * real_of_int j) (arange n_timestamps);
           lower_bound0 = map np_round2 lower_bound0;
           lower_bound1 = map np_round2 lower_bound1;
           lower_bound = map (\<lambda>(a, b). \<lceil>max a b\<rceil>) (zip lower_bound0 lower_bound1);
           upper_bound0 = map (\<lambda>j. max_slope * real_of_int j) (arange n_timestamps);
           upper_bound1 = map (\<lambda>j. (1 - min_slope) * real_of_int (n_timestamps - 1)
                                      + min_slope * real_of_int j) (arange n_timestamps);
           upper_bound0 = map np_round2 upper_bound0;
           upper_bound1 = map np_round2 upper_bound1;
           upper_bound = map (\<lambda>(a, b). \<lfloor>min a b + 1\<rfloor>) (zip upper_bound0 upper_bound1)
       in Inr (lower_bound, upper_bound))"

section \<open>Control flow and array helpers\<close>

text \<open>Sequencing of calls that may raise: the first exception escapes.\<close>

definition ebind :: "error + 'a \<Rightarrow> ('a \<Rightarrow> error + 'b) \<Rightarrow> error + 'b" where
  "ebind m f = (case m of Inl e \<Rightarrow> Inl e | Inr a \<Rightarrow> f a)"

text \<open>A \<open>for\<close> loop over the given values whose body may raise.\<close>

fun for_each :: "'a list \<Rightarrow> ('a \<Rightarrow> 's \<Rightarrow> error + 's) \<Rightarrow> 's \<Rightarrow> error + 's" where
  "for_each [] body s = Inr s"
| "for_each (a # as) body s =
     (case body a s of Inl e \<Rightarrow> Inl e | Inr s' \<Rightarrow> for_each as body s')"

text \<open>
  Python indexing of an axis of length \<open>n\<close> with an integer: a negative index counts from
  the end, an index outside \<open>[-n, n)\<close> raises \<open>IndexError\<close>. (The compiled loops do not
  check bounds; the model follows the Python semantics of the source text.)
\<close>

definition py_index :: "nat \<Rightarrow> int \<Rightarrow> error + nat" where
  "py_index n i =
     (if 0 \<le> i \<and> i < int n then Inr (nat i)
      else if - int n \<le> i \<and> i < 0 then Inr (nat (int n + i))
      else Inl IndexError)"

text \<open>The stop position of the slice \<open>0:h\<close> on an axis of length \<open>n\<close>.\<close>

definition slice_stop :: "nat \<Rightarrow> int \<Rightarrow> nat" where
  "slice_stop n h = (if h < 0 then nat (max 0 (int n + h)) else min n (nat h))"

definition np_full :: "nat \<Rightarrow> ext \<Rightarrow> matrix" where
  "np_full n v = replicate n (replicate n v)"

text \<open>
  \<open>np.empty((n, n))\<close> leaves the contents unspecified; the model fills in zeros. The two
  functions that use it overwrite every entry before reading it.
\<close>

definition np_empty :: "nat \<Rightarrow> matrix" where
  "np_empty n = np_full n (Fin 0)"

text \<open>\<open>m[i, j] = v\<close>\<close>

definition mat_set :: "matrix \<Rightarrow> nat \<Rightarrow> nat \<Rightarrow> ext \<Rightarrow> matrix" where
  "mat_set m i j v = m[i := (m ! i)[j := v]]"

text \<open>\<open>m[:, j]\<close>\<close>

definition col :: "matrix \<Rightarrow> nat \<Rightarrow> ext list" where
  "col m j = map (\<lambda>row. row ! j) m"

text \<open>\<open>m[0:len(vs), j] = vs\<close>\<close>

definition set_col :: "matrix \<Rightarrow> nat \<Rightarrow> ext list \<Rightarrow> matrix" where
  "set_col m j vs =
     map (\<lambda>i. if i < length vs then (m ! i)[j := vs ! i] else m ! i) [0..<length m]"

text \<open>\<open>np.cumsum\<close>\<close>

fun cumsum_from :: "ext \<Rightarrow> ext list \<Rightarrow> ext list" where
  "cumsum_from s [] = []"
| "cumsum_from s (v # vs) = (s + v) # cumsum_from (s + v) vs"

fun cumsum :: "ext list \<Rightarrow> ext list" where
  "cumsum [] = []"
| "cumsum (v # vs) = v # cumsum_from v vs"

text \<open>\<open>np.argmin\<close>: the position of the first smallest entry.\<close>

fun argmin_from :: "nat \<Rightarrow> ext \<Rightarrow> nat \<Rightarrow> ext list \<Rightarrow> nat" where
  "argmin_from best_i best_v i [] = best_i"
| "argmin_from best_i best_v i (v # vs) =
     (if v < best_v then argmin_from i v (Suc i) vs
      else argmin_from best_i best_v (Suc i) vs)"

fun np_argmin :: "ext list \<Rightarrow> nat" where
  "np_argmin [] = 0"
| "np_argmin (v # vs) = argmin_from 0 v 1 vs"

text \<open>\<open>math.sqrt\<close>: the square root of a negative number raises \<open>ValueError\<close>.\<close>

fun py_sqrt :: "ext \<Rightarrow> error + ext" where
  "py_sqrt PInf = Inr PInf"
| "py_sqrt (Fin r) = (if r < 0 then Inl ValueError else Inr (Fin (sqrt r)))"

section \<open>Distances and the cost matrix\<close>

text \<open>
  The \<open>dist\<close> argument: a string, or a callable. A callable is modelled as a total
  function on the reals, so the probe call \<open>dist(1, 1)\<close> of \<open>cost_matrix\<close> succeeds.
\<close>

datatype dist = DStr string | DCallable "real \<Rightarrow> real \<Rightarrow> real"

definition square :: "real \<Rightarrow> real \<Rightarrow> real" where
  "square x y = (x - y) ^ 2"

definition absolute :: "real \<Rightarrow> real \<Rightarrow> real" where
  "absolute x y = \<bar>x - y\<bar>"

definition cost_matrix_region ::
    "real list \<Rightarrow> real list \<Rightarrow> (real \<Rightarrow> real \<Rightarrow> real) \<Rightarrow> region \<Rightarrow> error + matrix" where
  "cost_matrix_region x y dist_fn region =
     (let n_timestamps = length x;
          cost_mat = np_full n_timestamps PInf
      in for_each [0..<n_timestamps]
           (\<lambda>j cost_mat.
              for_each [fst region ! j .. snd region ! j - 1]
                (\<lambda>i cost_mat.
                   ebind (py_index n_timestamps i)
                     (\<lambda>k. Inr (mat_set cost_mat k j (Fin (dist_fn (x ! k) (y ! j))))))
                cost_mat)
           cost_mat)"

definition cost_matrix_no_region ::
    "real list \<Rightarrow> real list \<Rightarrow> (real \<Rightarrow> real \<Rightarrow> real) \<Rightarrow> matrix" where
  "cost_matrix_no_region x y dist_fn =
     (let n_timestamps = length x;
          cost_mat = np_empty n_timestamps
      in fold (\<lambda>j cost_mat.
                 fold (\<lambda>i cost_mat. mat_set cost_mat i j (Fin (dist_fn (x ! i) (y ! j))))
                   [0..<n_timestamps] cost_mat)
           [0..<n_timestamps] cost_mat)"

text \<open>
  \<open>_check_input_dtw\<close>: the arguments are one-dimensional finite float arrays by type;
  \<open>check_array\<close> refuses an empty array, and the two shapes must agree.
\<close>

definition check_input_dtw :: "real list \<Rightarrow> real list \<Rightarrow> error + (real list \<times> real list \<times> nat)" where
  "check_input_dtw x y =
     (if x = [] \<or> y = [] then Inl ValueError
      else if length x \<noteq> length y then Inl ValueError
      else Inr (x, y, length x))"

definition cost_matrix ::
    "real list \<Rightarrow> real list \<Rightarrow> dist \<Rightarrow> region option \<Rightarrow> error + matrix" where
  "cost_matrix x0 y0 dist_arg region =
     ebind (check_input_dtw x0 y0) (\<lambda>(x, y, _).
     ebind (case dist_arg of
              DStr s \<Rightarrow>
                if s = ''square'' then Inr square
                else if s = ''absolute'' then Inr absolute
                else Inl ValueError
            | DCallable f \<Rightarrow> Inr f) (\<lambda>dist_fn.
     ebind (case region of
              None \<Rightarrow> Inr ()
            | Some r \<Rightarrow>
                if \<not> (length (fst r) = length x \<and> length (snd r) = length x)
                then Inl ValueError else Inr ()) (\<lambda>_.
     case region of
       None \<Rightarrow> Inr (cost_matrix_no_region x y dist_fn)
     | Some r \<Rightarrow> cost_matrix_region x y dist_fn r)))"

section \<open>Accumulated cost matrix\<close>

definition accumulated_cost_matrix_region :: "matrix \<Rightarrow> region \<Rightarrow> error + matrix" where
  "accumulated_cost_matrix_region cost_mat region =
     (let n_timestamps = length cost_mat;
          acc_cost_mat = np_full n_timestamps PInf;
          h = slice_stop n_timestamps (snd region ! 0);
          acc_cost_mat = acc_cost_mat
            [0 := cumsum (take h (cost_mat ! 0)) @ drop h (acc_cost_mat ! 0)];
          acc_cost_mat = set_col acc_cost_mat 0 (cumsum (take h (col cost_mat 0)))
      in for_each [1..<n_timestamps]
           (\<lambda>j acc_cost_mat.
              for_each [fst region ! j .. snd region ! j - 1]
                (\<lambda>i acc_cost_mat.
                   ebind (py_index n_timestamps i) (\<lambda>i0.
                   ebind (py_index n_timestamps (i - 1)) (\<lambda>i1.
                     Inr (mat_set acc_cost_mat i0 j
                            (cost_mat ! i0 ! j
                             + min (acc_cost_mat ! i1 ! (j - 1))
                                 (min (acc_cost_mat ! i1 ! j)
                                      (acc_cost_mat ! i0 ! (j - 1))))))))
                acc_cost_mat)
           acc_cost_mat)"

definition accumulated_cost_matrix_no_region :: "matrix \<Rightarrow> matrix" where
  "accumulated_cost_matrix_no_region cost_mat =
     (let n_timestamps = length cost_mat;
          acc_cost_mat = np_empty n_timestamps;
          acc_cost_mat = acc_cost_mat[0 := cumsum (cost_mat ! 0)];
          acc_cost_mat = set_col acc_cost_mat 0 (cumsum (col cost_mat 0))
      in fold (\<lambda>j acc_cost_mat.
                 fold (\<lambda>i acc_cost_mat.
                         mat_set acc_cost_mat i j
                           (cost_mat ! i ! j
                            + min (acc_cost_mat ! (i - 1) ! (j - 1))
                                (min (acc_cost_mat ! (i - 1) ! j)
                                     (acc_cost_mat ! i ! (j - 1)))))
                   [1..<n_timestamps] acc_cost_mat)
           [1..<n_timestamps] acc_cost_mat)"

text \<open>
  The shape of a two-dimensional array given as the list of its rows; rows of different
  lengths do not form an array, and \<open>check_array\<close> refuses them.
\<close>

definition n_cols :: "matrix \<Rightarrow> nat" where
  "n_cols m = (case m of [] \<Rightarrow> 0 | r # _ \<Rightarrow> length r)"

definition ragged :: "matrix \<Rightarrow> bool" where
  "ragged m = list_ex (\<lambda>r. length r \<noteq> n_cols m) m"

definition accumulated_cost_matrix :: "matrix \<Rightarrow> region option \<Rightarrow> error + matrix" where
  "accumulated_cost_matrix cost_mat region =
     (if ragged cost_mat \<or> length cost_mat < 2 \<or> n_cols cost_mat < 2 then Inl ValueError
      else if length cost_mat \<noteq> n_cols cost_mat then Inl ValueError
      else case region of
        None \<Rightarrow> Inr (accumulated_cost_matrix_no_region cost_mat)
      | Some r \<Rightarrow>
          if \<not> (length (fst r) = length cost_mat \<and> length (snd r) = length cost_mat)
          then Inl ValueError
          else accumulated_cost_matrix_region cost_mat r)"

section \<open>Path reconstruction\<close>

text \<open>
  One iteration of the \<open>while\<close> loop of \<open>_return_path\<close>: the cell appended after
  \<open>path[-1] = (i, j)\<close>.
\<close>

definition backtrack_step :: "matrix \<Rightarrow> nat \<times> nat \<Rightarrow> nat \<times> nat" where
  "backtrack_step acc_cost_mat cell =
     (let i = fst cell; j = snd cell in
      if i = 0 then (0, j - 1)
      else if j = 0 then (i - 1, 0)
      else
        let arr = [acc_cost_mat ! (i - 1) ! (j - 1),
                   acc_cost_mat ! (i - 1) ! j,
                   acc_cost_mat ! i ! (j - 1)];
            argmin = np_argmin arr
        in if argmin = 0 then (i - 1, j - 1)
           else if argmin = 1 then (i - 1, j)
           else (i, j - 1))"

lemma backtrack_step_decreases:
  "cell \<noteq> (0, 0) \<Longrightarrow>
     fst (backtrack_step acc cell) + snd (backtrack_step acc cell) < fst cell + snd cell"
  by (cases cell) (auto simp: backtrack_step_def Let_def)

text \<open>
  The loop state is the list \<open>path\<close>, kept as the cells before the last one (\<open>visited\<close>) and
  the last one (\<open>path[-1]\<close>), so that the list is never empty.
\<close>

function return_path_loop :: "matrix \<Rightarrow> (nat \<times> nat) list \<Rightarrow> nat \<times> nat \<Rightarrow> (nat \<times> nat) list" where
  "return_path_loop acc_cost_mat visited cell =
     (if cell \<noteq> (0, 0)
      then return_path_loop acc_cost_mat (visited @ [cell]) (backtrack_step acc_cost_mat cell)
      else visited @ [cell])"
  by pat_completeness auto
termination
  by (relation "measure (\<lambda>(acc, visited, cell). fst cell + snd cell)")
     (auto simp: backtrack_step_decreases)

declare return_path_loop.simps [simp del]

text \<open>
  \<open>_return_path\<close>. The result is the array of shape \<open>(2, path_length)\<close>, given as the list
  of its columns. For an empty matrix the start cell would be \<open>(-1, -1)\<close> and the first
  read is out of range.
\<close>

definition return_path :: "matrix \<Rightarrow> error + (nat \<times> nat) list" where
  "return_path acc_cost_mat =
     (let n_timestamps = length acc_cost_mat in
      if n_timestamps = 0 then Inl IndexError
      else Inr (rev (return_path_loop acc_cost_mat [] (n_timestamps - 1, n_timestamps - 1))))"

section \<open>The DTW variants\<close>

record dtw_result =
  res_dist :: ext
  res_cost :: "matrix option"
  res_acc :: "matrix option"
  res_path :: "(nat \<times> nat) list option"

definition return_results ::
    "ext \<Rightarrow> matrix \<Rightarrow> matrix \<Rightarrow> bool \<Rightarrow> bool \<Rightarrow> bool \<Rightarrow> error + dtw_result" where
  "return_results dtw_dist cost_mat acc_cost_mat return_cost return_accumulated return_path_flag =
     ebind (if return_path_flag
            then ebind (return_path acc_cost_mat) (\<lambda>p. Inr (Some p))
            else Inr None) (\<lambda>path.
     Inr \<lparr> res_dist = dtw_dist,
           res_cost = (if return_cost then Some cost_mat else None),
           res_acc = (if return_accumulated then Some acc_cost_mat else None),
           res_path = path \<rparr>)"

text \<open>\<open>acc_cost_mat[-1, -1]\<close>, followed by \<open>sqrt\<close> exactly when \<open>dist == 'square'\<close>.\<close>

definition final_distance :: "dist \<Rightarrow> matrix \<Rightarrow> error + ext" where
  "final_distance dist_arg acc_cost_mat =
     (let dtw_dist = last (last acc_cost_mat) in
      if dist_arg = DStr ''square'' then py_sqrt dtw_dist else Inr dtw_dist)"

definition dtw_classic ::
    "real list \<Rightarrow> real list \<Rightarrow> dist \<Rightarrow> bool \<Rightarrow> bool \<Rightarrow> bool \<Rightarrow> error + dtw_result" where
  "dtw_classic x0 y0 dist_arg return_cost return_accumulated return_path_flag =
     ebind (check_input_dtw x0 y0) (\<lambda>(x, y, n_timestamps).
     ebind (cost_matrix x y dist_arg None) (\<lambda>cost_mat.
     ebind (accumulated_cost_matrix cost_mat None) (\<lambda>acc_cost_mat.
     ebind (final_distance dist_arg acc_cost_mat) (\<lambda>dtw_dist.
     return_results dtw_dist cost_mat acc_cost_mat
       return_cost return_accumulated return_path_flag))))"

definition dtw_region ::
    "real list \<Rightarrow> real list \<Rightarrow> dist \<Rightarrow> region option \<Rightarrow> bool \<Rightarrow> bool \<Rightarrow> bool
       \<Rightarrow> error + dtw_result" where
  "dtw_region x0 y0 dist_arg region return_cost return_accumulated return_path_flag =
     ebind (check_input_dtw x0 y0) (\<lambda>(x, y, n_timestamps).
     ebind (case region of
              None \<Rightarrow> Inr ()
            | Some r \<Rightarrow>
                if \<not> (length (fst r) = n_timestamps \<and> length (snd r) = n_timestamps)
                then Inl ValueError else Inr ()) (\<lambda>_.
     ebind (cost_matrix x y dist_arg region) (\<lambda>cost_mat.
     ebind (accumulated_cost_matrix cost_mat None) (\<lambda>acc_cost_mat.
     ebind (final_distance dist_arg acc_cost_mat) (\<lambda>dtw_dist.
     return_results dtw_dist cost_mat acc_cost_mat
       return_cost return_accumulated return_path_flag)))))"

text \<open>
  \<open>dtw_sakoechiba\<close> calls \<open>sakoe_chiba_band\<close>; \<open>float_mul\<close> is the float64 product used
  there for a float window.
\<close>

definition dtw_sakoechiba ::
    "(real \<Rightarrow> int \<Rightarrow> real) \<Rightarrow> real list \<Rightarrow> real list \<Rightarrow> dist \<Rightarrow> number
       \<Rightarrow> bool \<Rightarrow> bool \<Rightarrow> bool \<Rightarrow> error + dtw_result" where
  "dtw_sakoechiba float_mul x0 y0 dist_arg window_size
       return_cost return_accumulated return_path_flag =
     ebind (check_input_dtw x0 y0) (\<lambda>(x, y, n_timestamps).
     ebind (sakoe_chiba_band_fl float_mul (int n_timestamps) window_size) (\<lambda>region.
     ebind (cost_matrix x y dist_arg (Some region)) (\<lambda>cost_mat.
     ebind (accumulated_cost_matrix cost_mat None) (\<lambda>acc_cost_mat.
     ebind (final_distance dist_arg acc_cost_mat) (\<lambda>dtw_dist.
     return_results dtw_dist cost_mat acc_cost_mat
       return_cost return_accumulated return_path_flag)))))"

definition dtw_itakura ::
    "real list \<Rightarrow> real list \<Rightarrow> dist \<Rightarrow> number \<Rightarrow> bool \<Rightarrow> bool \<Rightarrow> bool
       \<Rightarrow> error + dtw_result" where
  "dtw_itakura x0 y0 dist_arg max_slope return_cost return_accumulated return_path_flag =
     ebind (check_input_dtw x0 y0) (\<lambda>(x, y, n_timestamps).
     ebind (itakura_parallelogram (int n_timestamps) max_slope) (\<lambda>region.
     ebind (cost_matrix x y dist_arg (Some region)) (\<lambda>cost_mat.
     ebind (accumulated_cost_matrix cost_mat None) (\<lambda>acc_cost_mat.
     ebind (final_distance dist_arg acc_cost_mat) (\<lambda>dtw_dist.
     return_results dtw_dist cost_mat acc_cost_mat
       return_cost return_accumulated return_path_flag)))))"

section \<open>Multiscale and fast DTW\<close>

text \<open>\<open>np.repeat(a, k, axis=1)\<close> on the list of columns: every column \<open>k\<close> times in a row.\<close>

definition np_repeat :: "nat \<Rightarrow> 'a list \<Rightarrow> 'a list" where
  "np_repeat k xs = concat (map (replicate k) xs)"

text \<open>\<open>a[start:stop] = f(a[start:stop])\<close> on a list, for \<open>start \<le> stop\<close>.\<close>

definition map_slice :: "nat \<Rightarrow> nat \<Rightarrow> ('a \<Rightarrow> 'a) \<Rightarrow> 'a list \<Rightarrow> 'a list" where
  "map_slice start stop f xs =
     take start xs @ map f (take (stop - start) (drop start xs)) @ drop stop xs"

text \<open>
  The four shifted copies of the path after the loop \<open>for i in range(1, radius + 1)\<close> of
  \<open>_multiscale_region\<close>. A path is the list of the columns \<open>(path[0, k], path[1, k])\<close>.
\<close>

definition shifted_paths ::
    "(int \<times> int) list \<Rightarrow> nat \<Rightarrow>
       (int \<times> int) list \<times> (int \<times> int) list \<times> (int \<times> int) list \<times> (int \<times> int) list" where
  "shifted_paths path radius =
     (let path_length = length path;
          path_up = np_repeat radius path;
          path_down = path_up;
          path_left = path_up;
          path_right = path_up
      in fold (\<lambda>i (path_up, path_down, path_left, path_right).
                 let start = path_length * (i - 1);
                     stop = path_length * i
                 in (map_slice start stop (\<lambda>(a, b). (a + int i, b)) path_up,
                     map_slice start stop (\<lambda>(a, b). (a - int i, b)) path_down,
                     map_slice start stop (\<lambda>(a, b). (a, b - int i)) path_left,
                     map_slice start stop (\<lambda>(a, b). (a, b + int i)) path_right))
           [1..<radius + 1] (path_up, path_down, path_left, path_right))"

text \<open>\<open>np.min\<close> and \<open>np.max\<close> of a one-dimensional array; an empty one raises \<open>ValueError\<close>.\<close>

definition np_min :: "int list \<Rightarrow> error + int" where
  "np_min arr = (case arr of [] \<Rightarrow> Inl ValueError | a # as \<Rightarrow> Inr (fold min as a))"

definition np_max :: "int list \<Rightarrow> error + int" where
  "np_max arr = (case arr of [] \<Rightarrow> Inl ValueError | a # as \<Rightarrow> Inr (fold max as a))"

definition multiscale_region ::
    "nat \<Rightarrow> nat \<Rightarrow> nat \<Rightarrow> (int \<times> int) list \<Rightarrow> nat \<Rightarrow> error + region" where
  "multiscale_region n_timestamps resolution_level n_timestamps_reduced path radius =
     (case shifted_paths path radius of (path_up, path_down, path_left, path_right) \<Rightarrow>
      let path_radius =
            map (\<lambda>(a, b). (clip 0 (int n_timestamps_reduced - 1) a,
                            clip 0 (int n_timestamps_reduced - 1) b))
              (path @ path_up @ path_down @ path_left @ path_right);
          region_reduced = (replicate n_timestamps_reduced 0, replicate n_timestamps_reduced 0)
      in ebind
           (for_each [0..<n_timestamps_reduced]
              (\<lambda>i region_reduced.
                 let arr = map snd (filter (\<lambda>c. fst c = int i) path_radius) in
                 ebind (np_min arr) (\<lambda>min_v.
                 ebind (np_max arr) (\<lambda>max_v.
                   Inr ((fst region_reduced)[i := min_v * int resolution_level],
                        (snd region_reduced)[i := (max_v + 1) * int resolution_level]))))
              region_reduced)
           (\<lambda>region_reduced.
              let region = (np_repeat resolution_level (fst region_reduced),
                            np_repeat resolution_level (snd region_reduced));
                  region = (map (clip 0 (int n_timestamps)) (take n_timestamps (fst region)),
                            map (clip 0 (int n_timestamps)) (take n_timestamps (snd region)))
              in Inr region))"

text \<open>\<open>a.reshape(-1, resolution).mean(axis=1)\<close>, for \<open>len(a)\<close> a multiple of \<open>resolution\<close>.\<close>

definition reshape_mean :: "nat \<Rightarrow> real list \<Rightarrow> real list" where
  "reshape_mean resolution a =
     map (\<lambda>k. sum_list (take resolution (drop (k * resolution) a)) / real resolution)
       [0..<length a div resolution]"

text \<open>
  The block of \<open>dtw_multiscale\<close> and \<open>dtw_fast\<close> that pads a sequence with its last entry
  up to a multiple of \<open>resolution\<close> and averages the blocks.
\<close>

definition padded_mean :: "nat \<Rightarrow> nat \<Rightarrow> real list \<Rightarrow> real list" where
  "padded_mean n_timestamps resolution x =
     (let remainder = n_timestamps mod resolution in
      if remainder \<noteq> 0
      then reshape_mean resolution (x @ replicate (resolution - remainder) (last x))
      else reshape_mean resolution x)"

definition path_to_int :: "(nat \<times> nat) list \<Rightarrow> (int \<times> int) list" where
  "path_to_int p = map (\<lambda>(i, j). (int i, int j)) p"

definition dtw_multiscale ::
    "real list \<Rightarrow> real list \<Rightarrow> dist \<Rightarrow> number \<Rightarrow> number \<Rightarrow> bool \<Rightarrow> bool \<Rightarrow> bool
       \<Rightarrow> error + dtw_result" where
  "dtw_multiscale x0 y0 dist_arg resolution_arg radius_arg
       return_cost return_accumulated return_path_flag =
     ebind (check_input_dtw x0 y0) (\<lambda>(x, y, n_timestamps).
     ebind (case resolution_arg of PyFloat _ \<Rightarrow> Inl TypeError
            | PyInt r \<Rightarrow> if r < 1 then Inl ValueError else Inr (nat r)) (\<lambda>resolution.
     ebind (case radius_arg of PyFloat _ \<Rightarrow> Inl TypeError
            | PyInt r \<Rightarrow> if r < 0 then Inl ValueError else Inr (nat r)) (\<lambda>radius.
     ebind (if resolution = 1 then Inr None
            else
              let x_padded = padded_mean n_timestamps resolution x;
                  y_padded = padded_mean n_timestamps resolution y
              in ebind (cost_matrix x_padded y_padded dist_arg None) (\<lambda>cost_mat_res.
                 ebind (accumulated_cost_matrix cost_mat_res None) (\<lambda>acc_cost_mat_res.
                 ebind (return_path acc_cost_mat_res) (\<lambda>path_res.
                 ebind (multiscale_region n_timestamps resolution (length x_padded)
                          (path_to_int path_res) radius) (\<lambda>region.
                 Inr (Some region)))))) (\<lambda>region.
     ebind (cost_matrix x y dist_arg region) (\<lambda>cost_mat.
     ebind (accumulated_cost_matrix cost_mat None) (\<lambda>acc_cost_mat.
     ebind (final_distance dist_arg acc_cost_mat) (\<lambda>dtw_dist.
     return_results dtw_dist cost_mat acc_cost_mat
       return_cost return_accumulated return_path_flag)))))))"

text \<open>
  The first part of \<open>dtw_fast\<close> after the checks: \<open>region = None\<close>, and, when
  \<open>n_timestamps > min_size\<close>, the loop over the resolutions that computes the region.
\<close>

definition dtw_fast_region ::
    "real list \<Rightarrow> real list \<Rightarrow> nat \<Rightarrow> dist \<Rightarrow> nat \<Rightarrow> error + region option" where
  "dtw_fast_region x y n_timestamps dist_arg radius =
     (let min_size = radius + 2 in
      if n_timestamps > min_size
      then
        let n_recursions = nat \<lceil>log 2 (real n_timestamps / real min_size)\<rceil>
        in for_each [0..<n_recursions]
             (\<lambda>i region.
                let resolution = 2 ^ (n_recursions - i);
                    x_padded = padded_mean n_timestamps resolution x;
                    y_padded = padded_mean n_timestamps resolution y
                in ebind (cost_matrix x_padded y_padded dist_arg region) (\<lambda>cost_mat_res.
                   ebind (accumulated_cost_matrix cost_mat_res None) (\<lambda>acc_cost_mat_res.
                   ebind (return_path acc_cost_mat_res) (\<lambda>path_res.
                   let n_timestamps_next =
                         nat \<lceil>real (2 * n_timestamps) / real resolution\<rceil>
                   in ebind (multiscale_region n_timestamps_next 2 (length x_padded)
                               (path_to_int path_res) radius) (\<lambda>region.
                      Inr (Some region))))))
             None
      else Inr None)"

definition dtw_fast ::
    "real list \<Rightarrow> real list \<Rightarrow> dist \<Rightarrow> number \<Rightarrow> bool \<Rightarrow> bool \<Rightarrow> bool
       \<Rightarrow> error + dtw_result" where
  "dtw_fast x0 y0 dist_arg radius_arg return_cost return_accumulated return_path_flag =
     ebind (check_input_dtw x0 y0) (\<lambda>(x, y, n_timestamps).
     ebind (case radius_arg of PyFloat _ \<Rightarrow> Inl TypeError
            | PyInt r \<Rightarrow> if r < 0 then Inl ValueError else Inr (nat r)) (\<lambda>radius.
     ebind (dtw_fast_region x y n_timestamps dist_arg radius) (\<lambda>region.
     ebind (cost_matrix x y dist_arg region) (\<lambda>cost_mat.
     ebind (accumulated_cost_matrix cost_mat None) (\<lambda>acc_cost_mat.
     ebind (final_distance dist_arg acc_cost_mat) (\<lambda>dtw_dist.
     return_results dtw_dist cost_mat acc_cost_mat
       return_cost return_accumulated return_path_flag))))))"

section \<open>Method dispatcher\<close>

text \<open>
  \<open>options\<close> is a dictionary from option names to numbers, passed on as keyword
  arguments (\<open>**options\<close>): a key that the called function does not take as an option
  raises \<open>TypeError\<close>, a missing key takes the default of the called function. The
  default window size \<open>0.1\<close> is the float64 number \<open>3602879701896397 / 2^55\<close>.
\<close>

type_synonym options = "string \<rightharpoonup> number"

definition kwarg :: "options \<Rightarrow> string \<Rightarrow> number \<Rightarrow> number" where
  "kwarg opts k default_v = (case opts k of None \<Rightarrow> default_v | Some v \<Rightarrow> v)"

definition dtw ::
    "(real \<Rightarrow> int \<Rightarrow> real) \<Rightarrow> real list \<Rightarrow> real list \<Rightarrow> dist \<Rightarrow> string \<Rightarrow> options option
       \<Rightarrow> bool \<Rightarrow> bool \<Rightarrow> bool \<Rightarrow> error + dtw_result" where
  "dtw float_mul x y dist_arg method options_arg
       return_cost return_accumulated return_path_flag =
     (let opts = (case options_arg of None \<Rightarrow> Map.empty | Some d \<Rightarrow> d) in
      if method = ''classic'' then
        dtw_classic x y dist_arg return_cost return_accumulated return_path_flag
      else if method = ''sakoechiba'' then
        (if \<not> dom opts \<subseteq> {''window_size''} then Inl TypeError
         else dtw_sakoechiba float_mul x y dist_arg
                (kwarg opts ''window_size'' (PyFloat (3602879701896397 / 2 ^ 55)))
                return_cost return_accumulated return_path_flag)
      else if method = ''itakura'' then
        (if \<not> dom opts \<subseteq> {''max_slope''} then Inl TypeError
         else dtw_itakura x y dist_arg (kwarg opts ''max_slope'' (PyFloat 2))
                return_cost return_accumulated return_path_flag)
      else if method = ''multiscale'' then
        (if \<not> dom opts \<subseteq> {''resolution'', ''radius''} then Inl TypeError
         else dtw_multiscale x y dist_arg (kwarg opts ''resolution'' (PyInt 2))
                (kwarg opts ''radius'' (PyInt 0))
                return_cost return_accumulated return_path_flag)
      else if method = ''fast'' then
        (if \<not> dom opts \<subseteq> {''radius''} then Inl TypeError
         else dtw_fast x y dist_arg (kwarg opts ''radius'' (PyInt 0))
                return_cost return_accumulated return_path_flag)
      else Inl ValueError)"

section \<open>Notions used in the statements\<close>

text \<open>An array of shape \<open>(n, n)\<close>, given as the list of its rows.\<close>

definition is_square :: "nat \<Rightarrow> matrix \<Rightarrow> bool" where
  "is_square n m = (length m = n \<and> list_all (\<lambda>row. length row = n) m)"




section \<open>Auxiliary notions of the proofs\<close>



text \<open>The function that \<open>cost_matrix\<close> selects for a \<open>dist\<close> argument, if any.\<close>

definition dist_fn :: "dist \<Rightarrow> (real \<Rightarrow> real \<Rightarrow> real) option" where
  "dist_fn d = (case d of
      DStr s \<Rightarrow> if s = ''square'' then Some square
                else if s = ''absolute'' then Some absolute else None
    | DCallable f \<Rightarrow> Some f)"





section \<open>The region generators\<close>

lemma length_arange: "length (arange n) = nat n"
  by (simp add: arange_def)

lemma nth_arange: "j < nat n \<Longrightarrow> arange n ! j = int j"
  by (simp add: arange_def)

lemma rint_of_int: "rint (real_of_int k) = k"
  by (simp add: rint_def)

lemma np_round2_of_int: "np_round2 (real_of_int k) = real_of_int k"
proof -
  have "real_of_int k * 100 = real_of_int (k * 100)" by simp
  then have "rint (real_of_int k * 100) = k * 100"
    using rint_of_int [of "k * 100"] by simp
  then show ?thesis by (simp add: np_round2_def)
qed

lemma np_round2_of_nat: "np_round2 (real j) = real j"
  using np_round2_of_int [of "int j"] by simp

lemma sakoe_chiba_band_fl_window:
  assumes n: "2 \<le> n" and w: "0 \<le> w"
    and res: "(window = PyInt w \<and> w \<le> n - 1) \<or>
              (\<exists>f. window = PyFloat f \<and> 0 \<le> f \<and> f \<le> 1 \<and> w = \<lceil>float_mul f (n - 1)\<rceil>)"
  shows "sakoe_chiba_band_fl float_mul n window =
           Inr (map (\<lambda>j. max 0 (int j - w)) [0..<nat n],
                map (\<lambda>j. min n (int j + w + 1)) [0..<nat n])"
proof -
  have "sakoe_chiba_band_fl float_mul n window =
      Inr (map (clip 0 n) (map (\<lambda>v. v + (- w)) (arange n)),
           map (clip 0 n) (map (\<lambda>v. v + (w + 1)) (arange n)))"
    using n w res by (auto simp: sakoe_chiba_band_fl_def Let_def)
  moreover have "map (clip 0 n) (map (\<lambda>v. v + (- w)) (arange n))
      = map (\<lambda>j. max 0 (int j - w)) [0..<nat n]"
    using w n by (auto simp: arange_def clip_def)
  moreover have "map (clip 0 n) (map (\<lambda>v. v + (w + 1)) (arange n))
      = map (\<lambda>j. min n (int j + w + 1)) [0..<nat n]"
    using w n by (auto simp: arange_def clip_def)
  ultimately show ?thesis by simp
qed

lemma sakoe_chiba_band_window:
  assumes n: "2 \<le> n" and w: "0 \<le> w"
    and res: "(window = PyInt w \<and> w \<le> n - 1) \<or>
              (\<exists>f. window = PyFloat f \<and> 0 \<le> f \<and> f \<le> 1 \<and> w = \<lceil>f * real_of_int (n - 1)\<rceil>)"
  shows "sakoe_chiba_band n window =
           Inr (map (\<lambda>j. max 0 (int j - w)) [0..<nat n],
                map (\<lambda>j. min n (int j + w + 1)) [0..<nat n])"
  unfolding sakoe_chiba_band_def
  using assms by (intro sakoe_chiba_band_fl_window) auto

lemma ceiling_nonneg: "0 \<le> (p :: real) \<Longrightarrow> 0 \<le> \<lceil>p\<rceil>"
proof -
  assume "0 \<le> p"
  then have "real_of_int 0 \<le> p" by simp
  then show ?thesis by (metis ceiling_mono ceiling_of_int)
qed

text \<open>
  C6. For every \<open>n \<ge> 2\<close> and every valid window size (an integer \<open>w\<close> with
  \<open>0 \<le> w \<le> n - 1\<close>, or a float \<open>f\<close> in \<open>[0, 1]\<close> resolved to \<open>w = ceil (f * (n - 1))\<close>,
  the product being the float64 product \<open>float_mul f (n - 1)\<close> that the module computes),
  \<open>sakoe_chiba_band n window\<close> returns, for each column \<open>j\<close>, the row range
  \<open>[max 0 (j - w), min n (j + w + 1))\<close>; and \<open>sakoe_chiba_band 5 2\<close> returns
  \<open>lo = [0,0,0,1,2]\<close>, \<open>hi = [3,4,5,5,5]\<close>. Of the float64 product only this is used:
  the product of two numbers that are not negative is not negative.
\<close>

theorem sakoe_chiba_band_ranges:
  assumes "2 \<le> n"
    and "\<forall>f k. 0 \<le> f \<and> 0 \<le> k \<longrightarrow> 0 \<le> float_mul f k"
    and "(window = PyInt w \<and> 0 \<le> w \<and> w \<le> n - 1) \<or>
         (\<exists>f. window = PyFloat f \<and> 0 \<le> f \<and> f \<le> 1 \<and> w = \<lceil>float_mul f (n - 1)\<rceil>)"
  shows "(\<exists>lo hi. sakoe_chiba_band_fl float_mul n window = Inr (lo, hi)
            \<and> length lo = nat n \<and> length hi = nat n
            \<and> (\<forall>j < nat n. lo ! j = max 0 (int j - w) \<and> hi ! j = min n (int j + w + 1)))
         \<and> sakoe_chiba_band_fl float_mul 5 (PyInt 2) = Inr ([0, 0, 0, 1, 2], [3, 4, 5, 5, 5])"
proof
  have w0: "0 \<le> w"
  proof -
    from assms(3) consider "0 \<le> w" | f where "0 \<le> f" "w = \<lceil>float_mul f (n - 1)\<rceil>"
      by blast
    then show ?thesis
    proof cases
      case 1
      then show ?thesis .
    next
      case 2
      have "0 \<le> float_mul f (n - 1)" using assms(1,2) 2(1) by simp
      then show ?thesis using 2(2) ceiling_nonneg by simp
    qed
  qed
  have "sakoe_chiba_band_fl float_mul n window =
           Inr (map (\<lambda>j. max 0 (int j - w)) [0..<nat n],
                map (\<lambda>j. min n (int j + w + 1)) [0..<nat n])"
    using assms(1,3) w0 by (intro sakoe_chiba_band_fl_window) auto
  then show "\<exists>lo hi. sakoe_chiba_band_fl float_mul n window = Inr (lo, hi)
            \<and> length lo = nat n \<and> length hi = nat n
            \<and> (\<forall>j < nat n. lo ! j = max 0 (int j - w) \<and> hi ! j = min n (int j + w + 1))"
    by simp
next
  show "sakoe_chiba_band_fl float_mul 5 (PyInt 2) = Inr ([0, 0, 0, 1, 2], [3, 4, 5, 5, 5])"
    by (simp add: sakoe_chiba_band_fl_def arange_def clip_def Let_def upt_conv_Cons)
qed

text \<open>
  The witness is at \<open>n = 6\<close> and the float window \<open>0.2\<close>, the float64 number
  \<open>3602879701896397 / 2^54\<close>. Its float64 product with 5 is \<open>1.0\<close> (the exact product
  \<open>1 + 2^-54\<close> is rounded), so \<open>float_mul\<close> returns 1 there: the window is 1, as in the
  module, and not the ceiling 2 of the exact product.
\<close>

theorem sakoe_chiba_band_ranges_witness:
  "\<exists>lo hi. sakoe_chiba_band_fl (\<lambda>f k. if f = 3602879701896397 / 2 ^ 54 \<and> k = 5 then 1
                                       else f * real_of_int k)
             6 (PyFloat (3602879701896397 / 2 ^ 54)) = Inr (lo, hi)
      \<and> length lo = 6 \<and> length hi = 6
      \<and> lo ! 2 = 1 \<and> lo ! 5 = 4 \<and> hi ! 0 = 2 \<and> hi ! 5 = 6"
proof -
  let ?fm = "\<lambda>f k. if f = (3602879701896397 / 2 ^ 54 :: real) \<and> k = (5 :: int) then (1 :: real)
                   else f * real_of_int k"
  let ?f = "3602879701896397 / 2 ^ 54 :: real"
  have nn: "\<forall>f k. 0 \<le> f \<and> 0 \<le> k \<longrightarrow> 0 \<le> ?fm f k" by simp
  have c: "\<lceil>?fm ?f (6 - 1)\<rceil> = 1" by simp
  have "(PyFloat ?f = PyInt 1 \<and> 0 \<le> (1::int) \<and> (1::int) \<le> 6 - 1) \<or>
        (\<exists>f. PyFloat ?f = PyFloat f \<and> 0 \<le> f \<and> f \<le> 1 \<and> 1 = \<lceil>?fm f (6 - 1)\<rceil>)"
    using c by (intro disjI2 exI [of _ ?f]) simp
  from sakoe_chiba_band_ranges [of 6 ?fm "PyFloat ?f" 1, OF _ nn this]
  obtain lo hi where r: "sakoe_chiba_band_fl ?fm 6 (PyFloat ?f) = Inr (lo, hi)"
      "length lo = nat 6" "length hi = nat 6"
      "\<forall>j < nat 6. lo ! j = max 0 (int j - 1) \<and> hi ! j = min 6 (int j + 1 + 1)"
    by auto
  have "lo ! 2 = 1" "lo ! 5 = 4" "hi ! 0 = 2" "hi ! 5 = 6"
    using r(4) by auto
  then show ?thesis using r by auto
qed

text \<open>
  C10. The resolved window depends on the numeric type of \<open>window_size\<close>: for every
  \<open>n \<ge> 2\<close> the float \<open>1.0\<close> resolves to the window \<open>n - 1\<close> and gives the full grid
  (\<open>lo[j] = 0\<close>, \<open>hi[j] = n\<close> for every column), whereas the integer \<open>1\<close> resolves to the
  window 1 and gives the band of width 1 (\<open>lo[j] = max 0 (j - 1)\<close>, \<open>hi[j] = min n (j + 2)\<close>).
\<close>

theorem sakoe_chiba_band_float_one_vs_int_one:
  assumes "2 \<le> n"
  shows "sakoe_chiba_band n (PyFloat 1) = Inr (map (\<lambda>j. 0) [0..<nat n], map (\<lambda>j. n) [0..<nat n])
       \<and> sakoe_chiba_band n (PyInt 1) =
            Inr (map (\<lambda>j. max 0 (int j - 1)) [0..<nat n], map (\<lambda>j. min n (int j + 2)) [0..<nat n])"
proof
  have "sakoe_chiba_band n (PyFloat 1) =
           Inr (map (\<lambda>j. max 0 (int j - (n - 1))) [0..<nat n],
                map (\<lambda>j. min n (int j + (n - 1) + 1)) [0..<nat n])"
    using assms by (intro sakoe_chiba_band_window) auto
  moreover have "map (\<lambda>j. max 0 (int j - (n - 1))) [0..<nat n] = map (\<lambda>j. 0) [0..<nat n]"
    by auto
  moreover have "map (\<lambda>j. min n (int j + (n - 1) + 1)) [0..<nat n] = map (\<lambda>j. n) [0..<nat n]"
    by auto
  ultimately show "sakoe_chiba_band n (PyFloat 1)
      = Inr (map (\<lambda>j. 0) [0..<nat n], map (\<lambda>j. n) [0..<nat n])"
    by simp
next
  have "sakoe_chiba_band n (PyInt 1) =
           Inr (map (\<lambda>j. max 0 (int j - 1)) [0..<nat n],
                map (\<lambda>j. min n (int j + 1 + 1)) [0..<nat n])"
    using assms by (intro sakoe_chiba_band_window) auto
  then show "sakoe_chiba_band n (PyInt 1) =
            Inr (map (\<lambda>j. max 0 (int j - 1)) [0..<nat n], map (\<lambda>j. min n (int j + 2)) [0..<nat n])"
    by (simp add: add.assoc)
qed

theorem sakoe_chiba_band_float_one_vs_int_one_witness:
  "sakoe_chiba_band 4 (PyFloat 1) = Inr ([0, 0, 0, 0], [4, 4, 4, 4])
   \<and> sakoe_chiba_band 4 (PyInt 1) = Inr ([0, 0, 1, 2], [2, 3, 4, 4])"
  using sakoe_chiba_band_float_one_vs_int_one [of 4]
  by (simp add: upt_conv_Cons)

text \<open>
  C7. For every integer \<open>n \<ge> 2\<close>, \<open>itakura_parallelogram n max_slope\<close> with
  \<open>max_slope = 1\<close> (the integer or the float) returns exactly the diagonal:
  \<open>lo[j] = j\<close> and \<open>hi[j] = j + 1\<close> for every column \<open>j\<close> in \<open>0 .. n - 1\<close>.
\<close>

theorem itakura_parallelogram_slope_one:
  assumes "2 \<le> n" and "num_val max_slope = 1"
  shows "\<exists>lo hi. itakura_parallelogram n max_slope = Inr (lo, hi)
            \<and> length lo = nat n \<and> length hi = nat n
            \<and> (\<forall>j < nat n. lo ! j = int j \<and> hi ! j = int j + 1)"
proof -
  have "itakura_parallelogram n max_slope =
      Inr (map (\<lambda>(a, b). \<lceil>max a b\<rceil>)
             (zip (map np_round2 (map (\<lambda>j. real_of_int j) (arange n)))
                  (map np_round2 (map (\<lambda>j. real_of_int j) (arange n)))),
           map (\<lambda>(a, b). \<lfloor>min a b + 1\<rfloor>)
             (zip (map np_round2 (map (\<lambda>j. real_of_int j) (arange n)))
                  (map np_round2 (map (\<lambda>j. real_of_int j) (arange n)))))"
    using assms by (simp add: itakura_parallelogram_def Let_def)
  then show ?thesis
    by (simp add: length_arange nth_arange np_round2_of_nat)
qed

theorem itakura_parallelogram_slope_one_witness:
  "\<exists>lo hi. itakura_parallelogram 3 (PyFloat 1) = Inr (lo, hi)
      \<and> length lo = 3 \<and> length hi = 3
      \<and> lo ! 0 = 0 \<and> lo ! 1 = 1 \<and> lo ! 2 = 2 \<and> hi ! 0 = 1 \<and> hi ! 1 = 2 \<and> hi ! 2 = 3"
proof -
  from itakura_parallelogram_slope_one [of 3 "PyFloat 1"]
  obtain lo hi where r: "itakura_parallelogram 3 (PyFloat 1) = Inr (lo, hi)"
      "length lo = nat 3" "length hi = nat 3"
      "\<forall>j < nat 3. lo ! j = int j \<and> hi ! j = int j + 1"
    by auto
  have "lo ! 0 = 0 \<and> lo ! 1 = 1 \<and> lo ! 2 = 2 \<and> hi ! 0 = 1 \<and> hi ! 1 = 2 \<and> hi ! 2 = 3"
    using r(4) by auto
  then show ?thesis using r by auto
qed

section \<open>The accumulated cost matrix follows the recurrence\<close>





lemma is_squareI: "length m = n \<Longrightarrow> (\<And>i. i < n \<Longrightarrow> length (m ! i) = n) \<Longrightarrow> is_square n m"
  by (simp add: is_square_def list_all_length)










lemma fold_upt_Suc: "a \<le> k \<Longrightarrow> fold f [a..<Suc k] s = f k (fold f [a..<k] s)"
  by simp









section \<open>The reconstructed path\<close>





lemma return_path_loop_stop: "return_path_loop acc visited (0, 0) = visited @ [(0, 0)]"
  by (subst return_path_loop.simps) simp

lemma return_path_loop_step:
  "cell \<noteq> (0, 0) \<Longrightarrow>
     return_path_loop acc visited cell
       = return_path_loop acc (visited @ [cell]) (backtrack_step acc cell)"
  by (subst return_path_loop.simps) simp




section \<open>The steps shared by the variants\<close>


lemma ebind_Inr_simp [simp]: "ebind (Inr a) f = f a"
  by (simp add: ebind_def)

lemma ebind_Inl_simp [simp]: "ebind (Inl e) f = Inl e"
  by (simp add: ebind_def)
































section \<open>Properties of the recurrence\<close>















section \<open>The documented examples\<close>

lemma ext_less_simps:
  "Fin a < Fin b \<longleftrightarrow> a < b" "Fin a < PInf" "\<not> PInf < v"
  by (cases v; auto simp: less_ext_def)+

lemmas eval_defs = ext_less_simps cost_matrix_def cost_matrix_no_region_def
  cost_matrix_region_def check_input_dtw_def accumulated_cost_matrix_def
  accumulated_cost_matrix_no_region_def ragged_def n_cols_def np_empty_def np_full_def
  set_col_def col_def mat_set_def py_index_def ebind_def final_distance_def
  return_results_def return_path_def backtrack_step_def return_path_loop_stop
  return_path_loop_step square_def absolute_def Let_def upt_conv_Cons min_def




text \<open>Equal costs: the diagonal predecessor is taken.\<close>

lemma example_return_path_tie:
  "return_path [[Fin 0, Fin 0], [Fin 0, Fin 0]] = Inr [(0, 0), (1, 1)]"
  by (simp add: eval_defs)


text \<open>The same \<open>x\<close>, \<open>y\<close> with the region \<open>[[0, 1, 1], [2, 2, 3]]\<close>: \<open>sqrt(5)\<close>.\<close>

lemma example_region_cost_matrix:
  "cost_matrix [0, 1, 1] [2, 0, 1] (DStr ''square'') (Some ([0, 1, 1], [2, 2, 3]))
    = Inr [[Fin 4, PInf, PInf], [Fin 1, Fin 1, Fin 0], [PInf, PInf, Fin 0]]"
  by (simp add: eval_defs upto.simps)

lemma example_region_accumulated_cost_matrix:
  "accumulated_cost_matrix
      [[Fin 4, PInf, PInf], [Fin 1, Fin 1, Fin 0], [PInf, PInf, Fin 0]] None
    = Inr [[Fin 4, PInf, PInf], [Fin 5, Fin 5, Fin 5], [PInf, PInf, Fin 5]]"
  by (simp add: eval_defs)

lemma example_dtw_region:
  "dtw_region [0, 1, 1] [2, 0, 1] (DStr ''square'') (Some ([0, 1, 1], [2, 2, 3]))
      False False False
    = Inr \<lparr> res_dist = Fin (sqrt 5), res_cost = None, res_acc = None, res_path = None \<rparr>"
  by (simp add: dtw_region_def example_region_cost_matrix
      example_region_accumulated_cost_matrix final_distance_def return_results_def
      check_input_dtw_def)

text \<open>The same \<open>x\<close>, \<open>y\<close> with the Sakoe-Chiba band of window 1, absolute distance.\<close>

lemma example_dtw_sakoechiba:
  "dtw fm [0, 1, 1] [2, 0, 1] (DStr ''absolute'') ''sakoechiba''
      (Some [''window_size'' \<mapsto> PyInt 1]) False False False
    = Inr \<lparr> res_dist = Fin 2, res_cost = None, res_acc = None, res_path = None \<rparr>"
  by (simp add: dtw_def dtw_sakoechiba_def sakoe_chiba_band_fl_def kwarg_def arange_def clip_def
      eval_defs upto.simps)


text \<open>
  The same \<open>x\<close>, \<open>y\<close> with \<open>dtw_multiscale\<close>, \<open>resolution = 2\<close> and \<open>radius = 0\<close>: the
  sequences are averaged to \<open>[0.5, 1]\<close> and \<open>[1, 1]\<close>, the coarse path is the diagonal, the
  region is \<open>[[0, 0, 2], [2, 2, 3]]\<close> and the distance is \<open>sqrt(5)\<close>.
\<close>

lemma example_multiscale_region:
  "multiscale_region 3 2 2 [(0, 0), (1, 1)] 0 = Inr ([0, 0, 2], [2, 2, 3])"
  by code_simp

lemma example_padded_mean:
  "padded_mean 3 2 [0, 1, 1] = [1 / 2, 1] \<and> padded_mean 3 2 [2, 0, 1] = [1, 1]"
  by (simp add: padded_mean_def reshape_mean_def upt_conv_Cons)

lemma example_coarse_cost_matrix:
  "cost_matrix [1 / 2, 1] [1, 1] (DStr ''square'') None
     = Inr [[Fin (1 / 4), Fin (1 / 4)], [Fin 0, Fin 0]]"
  by (simp add: eval_defs power2_eq_square)

lemma example_coarse_accumulated_cost_matrix:
  "accumulated_cost_matrix [[Fin (1 / 4), Fin (1 / 4)], [Fin 0, Fin 0]] None
     = Inr [[Fin (1 / 4), Fin (1 / 2)], [Fin (1 / 4), Fin (1 / 4)]]"
  by (simp add: eval_defs)

lemma example_coarse_path:
  "return_path [[Fin (1 / 4), Fin (1 / 2)], [Fin (1 / 4), Fin (1 / 4)]] = Inr [(0, 0), (1, 1)]"
  by (simp add: eval_defs)

lemma example_multiscale_cost_matrix:
  "cost_matrix [0, 1, 1] [2, 0, 1] (DStr ''square'') (Some ([0, 0, 2], [2, 2, 3]))
     = Inr [[Fin 4, Fin 0, PInf], [Fin 1, Fin 1, PInf], [PInf, PInf, Fin 0]]"
  by (simp add: eval_defs upto.simps)

lemma example_multiscale_accumulated_cost_matrix:
  "accumulated_cost_matrix [[Fin 4, Fin 0, PInf], [Fin 1, Fin 1, PInf], [PInf, PInf, Fin 0]] None
     = Inr [[Fin 4, Fin 4, PInf], [Fin 5, Fin 5, PInf], [PInf, PInf, Fin 5]]"
  by (simp add: eval_defs)

lemma example_dtw_multiscale:
  "dtw_multiscale [0, 1, 1] [2, 0, 1] (DStr ''square'') (PyInt 2) (PyInt 0) False False False
    = Inr \<lparr> res_dist = Fin (sqrt 5), res_cost = None, res_acc = None, res_path = None \<rparr>"
proof -
  have r: "multiscale_region (Suc (Suc (Suc 0))) 2 (Suc (Suc 0)) [(0, 0), (1, 1)] 0
      = Inr ([0, 0, 2], [2, 2, 3])"
    using example_multiscale_region by (simp add: numeral_3_eq_3 numeral_2_eq_2)
  have p: "padded_mean (Suc (Suc (Suc 0))) 2 [0, 1, 1] = [1 / 2, 1]"
      "padded_mean (Suc (Suc (Suc 0))) 2 [2, 0, 1] = [1, 1]"
    using example_padded_mean by (simp_all add: numeral_3_eq_3)
  show ?thesis
    by (simp add: dtw_multiscale_def check_input_dtw_def p r Let_def path_to_int_def
        example_coarse_cost_matrix example_coarse_accumulated_cost_matrix example_coarse_path
        example_multiscale_cost_matrix example_multiscale_accumulated_cost_matrix
        final_distance_def return_results_def)
qed

text \<open>\<open>itakura_parallelogram(5)\<close> with the default \<open>max_slope = 2\<close>.\<close>

lemma ceiling_half: "\<lceil>1 / 2 :: real\<rceil> = 1"
  by (simp add: ceiling_eq_iff)

lemma example_itakura_parallelogram:
  "itakura_parallelogram 5 (PyFloat 2) = Inr ([0, 1, 1, 2, 4], [1, 3, 4, 4, 5])"
  by (simp add: itakura_parallelogram_def arange_def np_round2_def rint_def Let_def upt_conv_Cons
      ceiling_half)

section \<open>The claims about the DTW variants\<close>













end
